theory Spec2Isabelle
  imports Main
begin

section \<open>The benchmark script and its environment\<close>

text \<open>
  The repository is a Node.js script. \<^verbatim>\<open>bench()\<close> runs \<^verbatim>\<open>bench_simple()\<close> (a square-root
  loop, then a write, a read and a delete of a 1 MiB temporary file) and then awaits
  \<^verbatim>\<open>bench_sql()\<close> (open an SQLite file, create a schema, load fixture rows, run four
  queries, close and delete the file). Around each measured step the script reads
  \<^verbatim>\<open>process.hrtime.bigint()\<close> twice and prints the difference.

  The script is embedded as functions over an explicit \<open>world\<close>: the clock, the
  temporary directory, the file system, the open database connections, the two output
  streams and the sequence of library calls made so far. A raised error is the value
  \<open>Inl e\<close>; the world reached when it was raised is kept beside it, since what has been
  printed and written stays printed and written. \<^verbatim>\<open>await\<close> only sequences: nothing else
  runs in the process.

  The libraries the script calls (\<^verbatim>\<open>fs\<close>, \<^verbatim>\<open>sqlite\<close>) are not part of the repository. They
  are modelled by what their documentation says of the calls the script makes; the SQL
  text of the script is embedded as statements of a small SQL engine. How the module
  system loads the two source files is not modelled.
\<close>

subsection \<open>SQL values, tables and statements\<close>

datatype val =
    Null
  | Integer int
  | Text string
  | Decimal int nat  \<comment> \<open>a decimal literal as written: digits and number of fraction digits\<close>

datatype sqltype = INTEGER | TEXT | TIMESTAMP | DECIMAL nat nat

datatype constr = PRIMARY_KEY | NOT_NULL | UNIQUE | DEFAULT_CURRENT_TIMESTAMP

datatype column = Column string sqltype "constr list"

datatype fkey = FOREIGN_KEY string string string
  \<comment> \<open>\<^verbatim>\<open>FOREIGN KEY (col) REFERENCES table(col)\<close>\<close>

type_synonym row = "(string \<times> val) list"  \<comment> \<open>column name and value, in column order\<close>

record table =
  columns :: "column list"
  fkeys :: "fkey list"
  rows :: "row list"

type_synonym database = "string \<rightharpoonup> table"

datatype stmt =
    DROP_TABLE_IF_EXISTS string
  | CREATE_TABLE string "column list" "fkey list"
  | INSERT_INTO string "string list" "val list list"

text \<open>The four \<^verbatim>\<open>SELECT\<close> statements of the script. Their rows are computed by the engine
  and thrown away by the script; only the tables they read matter here.\<close>

datatype query = Ranked_orders_join | Category_tree_cte | Customer_aggregation | Product_search

fun reads :: "query \<Rightarrow> string list" where
  "reads Ranked_orders_join = [''orders'', ''customers'', ''order_items'', ''products'']"
| "reads Category_tree_cte = [''categories'']"
| "reads Customer_aggregation = [''orders'', ''order_items'', ''customers'']"
| "reads Product_search = [''products'', ''categories'']"

subsection \<open>Errors\<close>

datatype error =
    Fault string  \<comment> \<open>raised by the environment: disk full, permission denied, I/O error\<close>
  | No_such_file string
  | Not_a_database string
  | Misuse string  \<comment> \<open>a database handle used while not open\<close>
  | Table_exists string
  | No_such_table string
  | No_such_column string string
  | Values_mismatch string
  | Datatype_mismatch string string
  | Not_null_failed string string
  | Unique_failed string string

subsection \<open>The SQL engine: the three kinds of statement the script executes\<close>

text \<open>
  As SQLite documents them. A value is stored as it was written (type affinity is not
  modelled). An \<^verbatim>\<open>INTEGER PRIMARY KEY\<close> column left out of an \<^verbatim>\<open>INSERT\<close> gets the largest
  key of the table plus one, or 1 in an empty table. \<^verbatim>\<open>NOT NULL\<close>, \<^verbatim>\<open>UNIQUE\<close> and
  \<^verbatim>\<open>PRIMARY KEY\<close> are enforced; foreign keys are recorded and not enforced, which is
  SQLite's default and the script never turns enforcement on. A failing \<^verbatim>\<open>INSERT\<close>
  inserts none of its rows.
\<close>

fun col_name :: "column \<Rightarrow> string" where
  "col_name (Column c ty cs) = c"

fun int_keys :: "val list \<Rightarrow> int list" where
  "int_keys [] = []"
| "int_keys (Integer k # vs) = k # int_keys vs"
| "int_keys (v # vs) = int_keys vs"

definition next_key :: "val list \<Rightarrow> int" where
  "next_key taken = (case int_keys taken of [] \<Rightarrow> 1 | k # ks \<Rightarrow> fold max ks k + 1)"

fun cell :: "string \<Rightarrow> string \<Rightarrow> row list \<Rightarrow> (string \<rightharpoonup> val) \<Rightarrow> column \<Rightarrow> error + val" where
  "cell ts t old supplied (Column c ty cs) =
     (let v = (case supplied c of
                 Some v \<Rightarrow> v
               | None \<Rightarrow> if DEFAULT_CURRENT_TIMESTAMP \<in> set cs then Text ts else Null);
          taken = List.map_filter (\<lambda>r. map_of r c) old
      in if ty = INTEGER \<and> PRIMARY_KEY \<in> set cs then
           (case v of
              Null \<Rightarrow> Inr (Integer (next_key taken))
            | Integer k \<Rightarrow> if Integer k \<in> set taken then Inl (Unique_failed t c) else Inr (Integer k)
            | _ \<Rightarrow> Inl (Datatype_mismatch t c))
         else if v = Null then
           (if NOT_NULL \<in> set cs then Inl (Not_null_failed t c) else Inr Null)
         else if (UNIQUE \<in> set cs \<or> PRIMARY_KEY \<in> set cs) \<and> v \<in> set taken then
           Inl (Unique_failed t c)
         else Inr v)"

fun new_row :: "string \<Rightarrow> string \<Rightarrow> row list \<Rightarrow> (string \<rightharpoonup> val) \<Rightarrow> column list \<Rightarrow> error + row" where
  "new_row ts t old supplied [] = Inr []"
| "new_row ts t old supplied (col # cols) =
     (case cell ts t old supplied col of
        Inl e \<Rightarrow> Inl e
      | Inr v \<Rightarrow>
          (case new_row ts t old supplied cols of
             Inl e \<Rightarrow> Inl e
           | Inr r \<Rightarrow> Inr ((col_name col, v) # r)))"

fun insert_rows ::
  "string \<Rightarrow> string \<Rightarrow> column list \<Rightarrow> string list \<Rightarrow> val list list \<Rightarrow> row list \<Rightarrow> error + row list"
where
  "insert_rows ts t cols cs [] old = Inr old"
| "insert_rows ts t cols cs (vs # vss) old =
     (case new_row ts t old (map_of (zip cs vs)) cols of
        Inl e \<Rightarrow> Inl e
      | Inr r \<Rightarrow> insert_rows ts t cols cs vss (old @ [r]))"

fun exec_stmt :: "string \<Rightarrow> stmt \<Rightarrow> database \<Rightarrow> error + database" where
  "exec_stmt ts (DROP_TABLE_IF_EXISTS t) d = Inr (d(t := None))"
| "exec_stmt ts (CREATE_TABLE t cols fks) d =
     (case d t of
        Some tb \<Rightarrow> Inl (Table_exists t)
      | None \<Rightarrow> Inr (d(t \<mapsto> \<lparr>columns = cols, fkeys = fks, rows = []\<rparr>)))"
| "exec_stmt ts (INSERT_INTO t cs vss) d =
     (case d t of
        None \<Rightarrow> Inl (No_such_table t)
      | Some tb \<Rightarrow>
          (case find (\<lambda>c. c \<notin> set (map col_name (columns tb))) cs of
             Some c \<Rightarrow> Inl (No_such_column t c)
           | None \<Rightarrow>
               if list_ex (\<lambda>vs. length vs \<noteq> length cs) vss then Inl (Values_mismatch t)
               else (case insert_rows ts t (columns tb) cs vss (rows tb) of
                       Inl e \<Rightarrow> Inl e
                     | Inr rs \<Rightarrow> Inr (d(t \<mapsto> tb\<lparr>rows := rs\<rparr>)))))"

text \<open>\<^verbatim>\<open>exec\<close> runs the statements of its text one after the other and stops at the first
  that fails; the statements before it stay done.\<close>

fun exec_batch :: "string \<Rightarrow> stmt list \<Rightarrow> database \<Rightarrow> (error + unit) \<times> database" where
  "exec_batch ts [] d = (Inr (), d)"
| "exec_batch ts (s # ss) d =
     (case exec_stmt ts s d of
        Inl e \<Rightarrow> (Inl e, d)
      | Inr d' \<Rightarrow> exec_batch ts ss d')"

text \<open>The observation the row-count scenarios make: \<^verbatim>\<open>SELECT COUNT(*) FROM t\<close>.\<close>

definition row_count :: "string \<Rightarrow> database \<Rightarrow> error + nat" where
  "row_count t d = (case d t of None \<Rightarrow> Inl (No_such_table t) | Some tb \<Rightarrow> Inr (length (rows tb)))"

subsection \<open>Files, library calls, the world\<close>

datatype content = Plain string | Sqlite database

datatype call =
    WriteFile string
  | ReadFile string
  | Unlink string
  | Open string
  | Exec string
  | Db_all string
  | Close string


text \<open>
  The world. The clock is a sequence of readings, consumed one at a time. The environment
  decides through \<open>fault\<close> which library calls fail and with what error: \<open>fault w n = Some e\<close>
  says that the \<open>n\<close>-th library call the process makes (counted from 0, in \<open>trace\<close>) fails
  with \<open>e\<close>, whatever the call is. Such failures stand for a full disk, a missing
  permission or an engine error; beside them a call can fail for a reason of its own (a
  file that is not there, a table that exists already). Reading the clock and printing do
  not fail.
\<close>

record world =
  now :: "nat \<Rightarrow> int"  \<comment> \<open>what the \<open>i\<close>-th reading of \<^verbatim>\<open>process.hrtime.bigint()\<close> returns\<close>
  ticks :: nat  \<comment> \<open>clock readings taken so far\<close>
  tmpdir :: string  \<comment> \<open>\<^verbatim>\<open>os.tmpdir()\<close>\<close>
  current_timestamp :: string  \<comment> \<open>SQL \<^verbatim>\<open>CURRENT_TIMESTAMP\<close>\<close>
  answer :: "query \<Rightarrow> database \<Rightarrow> val list list"  \<comment> \<open>the engine's \<^verbatim>\<open>SELECT\<close> evaluator\<close>
  db_bytes :: "database \<Rightarrow> string"  \<comment> \<open>the bytes of a database file, read as text\<close>
  fault :: "nat \<Rightarrow> error option"
    \<comment> \<open>whether the environment fails the \<open>n\<close>-th library call of the process, and how\<close>
  fs :: "string \<rightharpoonup> content"
  opened :: "string set"  \<comment> \<open>database files with an open connection\<close>
  stdout :: "string list"
  stderr :: "error list"
  trace :: "call list"  \<comment> \<open>the library calls made so far, in order\<close>

type_synonym 'a io = "world \<Rightarrow> (error + 'a) \<times> world"

definition io_bind :: "'a io \<Rightarrow> ('a \<Rightarrow> 'b io) \<Rightarrow> 'b io" where
  "io_bind m f w = (case m w of (Inl e, w') \<Rightarrow> (Inl e, w') | (Inr x, w') \<Rightarrow> f x w')"

definition io_return :: "'a \<Rightarrow> 'a io" where
  "io_return x w = (Inr x, w)"

text \<open>A library call is entered in the trace; the environment may fail it before it does
  anything.\<close>

definition lib_call :: "call \<Rightarrow> 'a io \<Rightarrow> 'a io" where
  "lib_call c body w =
     (case fault w (length (trace w)) of
        Some e \<Rightarrow> (Inl e, w\<lparr>trace := trace w @ [c]\<rparr>)
      | None \<Rightarrow> body (w\<lparr>trace := trace w @ [c]\<rparr>))"

subsection \<open>Clock, console, paths\<close>

definition hrtime_bigint :: "int io" where
  "hrtime_bigint w = (Inr (now w (ticks w)), w\<lparr>ticks := Suc (ticks w)\<rparr>)"

definition console_log :: "string \<Rightarrow> unit io" where
  "console_log s w = (Inr (), w\<lparr>stdout := stdout w @ [s]\<rparr>)"

definition console_error :: "error \<Rightarrow> unit io" where
  "console_error e w = (Inr (), w\<lparr>stderr := stderr w @ [e]\<rparr>)"

definition os_tmpdir :: "string io" where
  "os_tmpdir w = (Inr (tmpdir w), w)"

text \<open>\<^verbatim>\<open>path.join(dir, name)\<close> for a single file name; the normalisation of dot segments
  inside \<open>dir\<close> is not modelled.\<close>

definition path_join :: "string \<Rightarrow> string \<Rightarrow> string" where
  "path_join dir name =
     (if dir = [] then [] else if last dir = CHR ''/'' then dir else dir @ ''/'') @ name"

text \<open>The decimal text of a BigInt, as a template literal renders it.\<close>

definition digit_char :: "nat \<Rightarrow> char" where
  "digit_char n = ''0123456789'' ! n"

fun nat_str :: "nat \<Rightarrow> string" where
  "nat_str n = (if n < 10 then [digit_char n] else nat_str (n div 10) @ [digit_char (n mod 10)])"

declare nat_str.simps [simp del]

definition bigint_str :: "int \<Rightarrow> string" where
  "bigint_str i = (if i < 0 then CHR ''-'' # nat_str (nat (- i)) else nat_str (nat i))"

text \<open>A template literal \<^verbatim>\<open>`prefix${n}suffix`\<close> with one BigInt hole.\<close>

definition template :: "string \<Rightarrow> int \<Rightarrow> string \<Rightarrow> string" where
  "template prefix n suffix = prefix @ bigint_str n @ suffix"

subsection \<open>The file system calls\<close>

definition writeFileSync :: "string \<Rightarrow> string \<Rightarrow> unit io" where
  "writeFileSync p data =
     lib_call (WriteFile p) (\<lambda>w. (Inr (), w\<lparr>fs := (fs w)(p \<mapsto> Plain data)\<rparr>))"

definition readFileSync :: "string \<Rightarrow> string io" where
  "readFileSync p =
     lib_call (ReadFile p) (\<lambda>w.
       case fs w p of
         None \<Rightarrow> (Inl (No_such_file p), w)
       | Some (Plain s) \<Rightarrow> (Inr s, w)
       | Some (Sqlite d) \<Rightarrow> (Inr (db_bytes w d), w))"

definition unlinkSync :: "string \<Rightarrow> unit io" where
  "unlinkSync p =
     lib_call (Unlink p) (\<lambda>w.
       case fs w p of
         None \<Rightarrow> (Inl (No_such_file p), w)
       | Some _ \<Rightarrow> (Inr (), w\<lparr>fs := (fs w)(p := None)\<rparr>))"

subsection \<open>\<^verbatim>\<open>bench_simple\<close>\<close>

text \<open>The loop \<^verbatim>\<open>for (let i = 0; i < 1e6; i++) Math.sqrt(i)\<close>: a million iterations, each
  computing a value that is discarded.\<close>

definition sqrt_loop :: "unit io" where
  "sqrt_loop w = (Inr (), fold (\<lambda>i w. w) [0..<1000000] w)"

definition testData :: string where
  "testData = replicate (1024 * 1024) CHR ''x''"

definition bench_simple :: "unit io" where
  "bench_simple =
     io_bind hrtime_bigint (\<lambda>start.
     io_bind sqrt_loop (\<lambda>_.
     io_bind hrtime_bigint (\<lambda>end.
     io_bind (console_log
       (template ''Square root execution time: '' (end - start) '' nanoseconds'')) (\<lambda>_.
     io_bind os_tmpdir (\<lambda>tmp.
     let testFile = path_join tmp ''benchmark_test.txt'' in
     io_bind hrtime_bigint (\<lambda>writeStart.
     io_bind (writeFileSync testFile testData) (\<lambda>_.
     io_bind hrtime_bigint (\<lambda>writeEnd.
     io_bind (console_log
       (template ''Write execution time: '' (writeEnd - writeStart) '' nanoseconds'')) (\<lambda>_.
     io_bind hrtime_bigint (\<lambda>readStart.
     io_bind (readFileSync testFile) (\<lambda>readData.
     io_bind hrtime_bigint (\<lambda>readEnd.
     io_bind (console_log
       (template ''Read execution time: '' (readEnd - readStart) '' nanoseconds'')) (\<lambda>_.
     unlinkSync testFile)))))))))))))"

subsection \<open>The database calls\<close>

text \<open>The calls \<^verbatim>\<open>open\<close>, \<^verbatim>\<open>db.exec\<close>, \<^verbatim>\<open>db.all\<close> and \<^verbatim>\<open>db.close\<close>. \<^verbatim>\<open>open\<close> leaves a file
  that is there as it is and creates an empty database when there is none; the handle it
  returns is modelled by the file name. An empty file is an empty database; a file with
  other text is refused by the first statement that reads it. The database lives in the
  file: every statement reads it from there and writes it back.\<close>

definition sqlite_open :: "string \<Rightarrow> string io" where
  "sqlite_open p =
     lib_call (Open p) (\<lambda>w.
       (Inr p, w\<lparr>fs := (fs w)(p \<mapsto> (case fs w p of None \<Rightarrow> Sqlite Map.empty | Some c \<Rightarrow> c)),
                 opened := insert p (opened w)\<rparr>))"

definition load :: "string \<Rightarrow> content option \<Rightarrow> error + database" where
  "load p c =
     (case c of
        None \<Rightarrow> Inl (No_such_file p)
      | Some (Sqlite d) \<Rightarrow> Inr d
      | Some (Plain s) \<Rightarrow> if s = [] then Inr Map.empty else Inl (Not_a_database p))"

definition db_exec :: "string \<Rightarrow> stmt list \<Rightarrow> unit io" where
  "db_exec db stmts =
     lib_call (Exec db) (\<lambda>w.
       if db \<notin> opened w then (Inl (Misuse db), w)
       else (case load db (fs w db) of
               Inl e \<Rightarrow> (Inl e, w)
             | Inr d \<Rightarrow>
                 (case exec_batch (current_timestamp w) stmts d of
                    (r, d') \<Rightarrow> (r, w\<lparr>fs := (fs w)(db \<mapsto> Sqlite d')\<rparr>))))"

definition db_all :: "string \<Rightarrow> query \<Rightarrow> val list list io" where
  "db_all db q =
     lib_call (Db_all db) (\<lambda>w.
       if db \<notin> opened w then (Inl (Misuse db), w)
       else (case load db (fs w db) of
               Inl e \<Rightarrow> (Inl e, w)
             | Inr d \<Rightarrow>
                 (case find (\<lambda>t. d t = None) (reads q) of
                    Some t \<Rightarrow> (Inl (No_such_table t), w)
                  | None \<Rightarrow> (Inr (answer w q d), w))))"

definition db_close :: "string \<Rightarrow> unit io" where
  "db_close db =
     lib_call (Close db) (\<lambda>w.
       if db \<notin> opened w then (Inl (Misuse db), w)
       else (Inr (), w\<lparr>opened := opened w - {db}\<rparr>))"

subsection \<open>\<^verbatim>\<open>createSchema\<close> and \<^verbatim>\<open>insertTestData\<close>\<close>

definition drop_tables :: "stmt list" where
  "drop_tables =
     [DROP_TABLE_IF_EXISTS ''order_items'',
      DROP_TABLE_IF_EXISTS ''orders'',
      DROP_TABLE_IF_EXISTS ''products'',
      DROP_TABLE_IF_EXISTS ''categories'',
      DROP_TABLE_IF_EXISTS ''customers'']"

definition customers_columns :: "column list" where
  "customers_columns =
     [Column ''customer_id'' INTEGER [PRIMARY_KEY],
      Column ''name'' TEXT [NOT_NULL],
      Column ''email'' TEXT [UNIQUE],
      Column ''created_at'' TIMESTAMP [DEFAULT_CURRENT_TIMESTAMP]]"

definition categories_columns :: "column list" where
  "categories_columns =
     [Column ''category_id'' INTEGER [PRIMARY_KEY],
      Column ''name'' TEXT [NOT_NULL],
      Column ''parent_id'' INTEGER []]"

definition products_columns :: "column list" where
  "products_columns =
     [Column ''product_id'' INTEGER [PRIMARY_KEY],
      Column ''name'' TEXT [NOT_NULL],
      Column ''description'' TEXT [],
      Column ''price'' (DECIMAL 10 2) [NOT_NULL],
      Column ''category_id'' INTEGER []]"

definition orders_columns :: "column list" where
  "orders_columns =
     [Column ''order_id'' INTEGER [PRIMARY_KEY],
      Column ''customer_id'' INTEGER [],
      Column ''order_date'' TIMESTAMP [DEFAULT_CURRENT_TIMESTAMP],
      Column ''total_amount'' (DECIMAL 10 2) [NOT_NULL]]"

definition order_items_columns :: "column list" where
  "order_items_columns =
     [Column ''order_item_id'' INTEGER [PRIMARY_KEY],
      Column ''order_id'' INTEGER [],
      Column ''product_id'' INTEGER [],
      Column ''quantity'' INTEGER [NOT_NULL],
      Column ''price'' (DECIMAL 10 2) [NOT_NULL]]"

definition create_tables :: "stmt list" where
  "create_tables =
     [CREATE_TABLE ''customers'' customers_columns [],
      CREATE_TABLE ''categories'' categories_columns
        [FOREIGN_KEY ''parent_id'' ''categories'' ''category_id''],
      CREATE_TABLE ''products'' products_columns
        [FOREIGN_KEY ''category_id'' ''categories'' ''category_id''],
      CREATE_TABLE ''orders'' orders_columns
        [FOREIGN_KEY ''customer_id'' ''customers'' ''customer_id''],
      CREATE_TABLE ''order_items'' order_items_columns
        [FOREIGN_KEY ''order_id'' ''orders'' ''order_id'',
         FOREIGN_KEY ''product_id'' ''products'' ''product_id'']]"

definition createSchema :: "string \<Rightarrow> unit io" where
  "createSchema db =
     io_bind (db_exec db drop_tables) (\<lambda>_.
     db_exec db create_tables)"

definition insert_customers :: "stmt list" where
  "insert_customers =
     [INSERT_INTO ''customers'' [''name'', ''email'']
        [[Text ''John Doe'', Text ''john@example.com''],
         [Text ''Jane Smith'', Text ''jane@example.com''],
         [Text ''Bob Johnson'', Text ''bob@example.com'']]]"

definition insert_categories :: "stmt list" where
  "insert_categories =
     [INSERT_INTO ''categories'' [''name'', ''parent_id'']
        [[Text ''Electronics'', Null],
         [Text ''Computers'', Integer 1],
         [Text ''Smartphones'', Integer 1],
         [Text ''Clothing'', Null],
         [Text ''Men'', Integer 4],
         [Text ''Women'', Integer 4]]]"

definition insert_products :: "stmt list" where
  "insert_products =
     [INSERT_INTO ''products'' [''name'', ''description'', ''price'', ''category_id'']
        [[Text ''Premium Laptop'', Text ''High-end laptop with premium features'',
          Decimal 129999 2, Integer 2],
         [Text ''Smartphone Pro'', Text ''Latest smartphone with exclusive features'',
          Decimal 99999 2, Integer 3],
         [Text ''Classic T-Shirt'', Text ''Comfortable cotton t-shirt'', Decimal 2999 2, Integer 5],
         [Text ''Designer Dress'', Text ''Elegant designer dress'', Decimal 19999 2, Integer 6]]]"

definition insert_orders :: "stmt list" where
  "insert_orders =
     [INSERT_INTO ''orders'' [''customer_id'', ''total_amount'']
        [[Integer 1, Decimal 132998 2],
         [Integer 1, Decimal 22998 2],
         [Integer 2, Decimal 99999 2],
         [Integer 3, Decimal 19999 2]],
      INSERT_INTO ''order_items'' [''order_id'', ''product_id'', ''quantity'', ''price'']
        [[Integer 1, Integer 1, Integer 1, Decimal 129999 2],
         [Integer 1, Integer 3, Integer 1, Decimal 2999 2],
         [Integer 2, Integer 3, Integer 2, Decimal 2999 2],
         [Integer 3, Integer 2, Integer 1, Decimal 99999 2],
         [Integer 4, Integer 4, Integer 1, Decimal 19999 2]]]"

definition insertTestData :: "string \<Rightarrow> unit io" where
  "insertTestData db =
     io_bind (db_exec db insert_customers) (\<lambda>_.
     io_bind (db_exec db insert_categories) (\<lambda>_.
     io_bind (db_exec db insert_products) (\<lambda>_.
     db_exec db insert_orders)))"

subsection \<open>\<^verbatim>\<open>bench_sql\<close>, \<^verbatim>\<open>bench\<close> and the script\<close>

definition bench_sql :: "unit io" where
  "bench_sql =
     io_bind hrtime_bigint (\<lambda>start.
     io_bind os_tmpdir (\<lambda>tmp.
     let dbPath = path_join tmp ''sql_benchmark.db'' in
     io_bind (sqlite_open dbPath) (\<lambda>db.
     io_bind hrtime_bigint (\<lambda>schemaStart.
     io_bind (createSchema db) (\<lambda>_.
     io_bind hrtime_bigint (\<lambda>schemaEnd.
     io_bind (console_log
       (template ''Schema creation time: '' (schemaEnd - schemaStart) '' nanoseconds'')) (\<lambda>_.
     io_bind hrtime_bigint (\<lambda>insertStart.
     io_bind (insertTestData db) (\<lambda>_.
     io_bind hrtime_bigint (\<lambda>insertEnd.
     io_bind (console_log
       (template ''Data insertion time: '' (insertEnd - insertStart) '' nanoseconds'')) (\<lambda>_.
     io_bind hrtime_bigint (\<lambda>joinStart.
     io_bind (db_all db Ranked_orders_join) (\<lambda>joinResult.
     io_bind hrtime_bigint (\<lambda>joinEnd.
     io_bind (console_log
       (template ''Complex JOIN query time: '' (joinEnd - joinStart) '' nanoseconds'')) (\<lambda>_.
     io_bind hrtime_bigint (\<lambda>cteStart.
     io_bind (db_all db Category_tree_cte) (\<lambda>cteResult.
     io_bind hrtime_bigint (\<lambda>cteEnd.
     io_bind (console_log
       (template ''Recursive CTE query time: '' (cteEnd - cteStart) '' nanoseconds'')) (\<lambda>_.
     io_bind hrtime_bigint (\<lambda>aggStart.
     io_bind (db_all db Customer_aggregation) (\<lambda>aggResult.
     io_bind hrtime_bigint (\<lambda>aggEnd.
     io_bind (console_log
       (template ''Complex aggregation time: '' (aggEnd - aggStart) '' nanoseconds'')) (\<lambda>_.
     io_bind hrtime_bigint (\<lambda>searchStart.
     io_bind (db_all db Product_search) (\<lambda>searchResult.
     io_bind hrtime_bigint (\<lambda>searchEnd.
     io_bind (console_log
       (template ''Full-text search time: '' (searchEnd - searchStart) '' nanoseconds'')) (\<lambda>_.
     io_bind (db_close db) (\<lambda>_.
     io_bind (unlinkSync dbPath) (\<lambda>_.
     io_bind hrtime_bigint (\<lambda>end.
     console_log
       (template ''Total SQL benchmark time: '' (end - start) '' nanoseconds'')))))))))))))))))))))))))))))))"

definition bench :: "unit io" where
  "bench =
     io_bind bench_simple (\<lambda>_.
     bench_sql)"

text \<open>The last line of the entry file is \<^verbatim>\<open>bench().catch(console.error)\<close>: a rejection of
  \<^verbatim>\<open>bench()\<close> is handled by printing the error on standard error. The script never sets
  \<^verbatim>\<open>process.exitCode\<close> and never calls \<^verbatim>\<open>process.exit\<close>, so the process ends with status
  1 when an error is left unhandled and with status 0 otherwise.\<close>

definition io_catch :: "'a io \<Rightarrow> (error \<Rightarrow> unit io) \<Rightarrow> unit io" where
  "io_catch m h w = (case m w of (Inl e, w') \<Rightarrow> h e w' | (Inr x, w') \<Rightarrow> (Inr (), w'))"

definition exit_status :: "error + unit \<Rightarrow> nat" where
  "exit_status r = (case r of Inl e \<Rightarrow> 1 | Inr u \<Rightarrow> 0)"

definition script :: "world \<Rightarrow> nat \<times> world" where
  "script w = (case io_catch bench console_error w of (r, w') \<Rightarrow> (exit_status r, w'))"

section \<open>What a run is observed by\<close>

text \<open>The two temporary files, named as the script's local constants are.\<close>

definition testFile :: "world \<Rightarrow> string" where
  "testFile w = path_join (tmpdir w) ''benchmark_test.txt''"

definition dbPath :: "world \<Rightarrow> string" where
  "dbPath w = path_join (tmpdir w) ''sql_benchmark.db''"

text \<open>The sixteen library calls of \<^verbatim>\<open>bench\<close> in source order: write, read and delete the
  text file; open the database; two \<^verbatim>\<open>exec\<close> in \<^verbatim>\<open>createSchema\<close>, four in
  \<^verbatim>\<open>insertTestData\<close>; four \<^verbatim>\<open>all\<close>; close; delete the database file.\<close>

definition calls :: "world \<Rightarrow> call list" where
  "calls w =
     [WriteFile (testFile w), ReadFile (testFile w), Unlink (testFile w),
      Open (dbPath w),
      Exec (dbPath w), Exec (dbPath w),
      Exec (dbPath w), Exec (dbPath w), Exec (dbPath w), Exec (dbPath w),
      Db_all (dbPath w), Db_all (dbPath w), Db_all (dbPath w), Db_all (dbPath w),
      Close (dbPath w), Unlink (dbPath w)]"

text \<open>The timed operations in the order their lines are printed. For each: its label; which
  clock readings of the run (counted from 0) are its start and its end; and the number, in
  \<open>calls\<close> counted from 1, of the last library call made between the two readings (0 for
  the square-root loop, which makes none).\<close>

definition timed :: "(string \<times> nat \<times> nat \<times> nat) list" where
  "timed =
     [(''Square root execution'', 0, 1, 0),
      (''Write execution'', 2, 3, 1),
      (''Read execution'', 4, 5, 2),
      (''Schema creation'', 7, 8, 6),
      (''Data insertion'', 9, 10, 10),
      (''Complex JOIN query'', 11, 12, 11),
      (''Recursive CTE query'', 13, 14, 12),
      (''Complex aggregation'', 15, 16, 13),
      (''Full-text search'', 17, 18, 14),
      (''Total SQL benchmark'', 6, 19, 16)]"

definition line :: "(nat \<Rightarrow> int) \<Rightarrow> nat \<Rightarrow> string \<times> nat \<times> nat \<times> nat \<Rightarrow> string" where
  "line clock t op =
     (case op of (label, s, e, c) \<Rightarrow>
        template (label @ '' time: '') (clock (t + e) - clock (t + s)) '' nanoseconds'')"

text \<open>What \<^verbatim>\<open>bench\<close>, started in \<open>w\<close>, leaves behind: \<open>m\<close> library calls were made, the
  first \<open>m\<close> of \<open>calls\<close>; a line was printed for the timed operations that were complete;
  no file but the two temporary ones changed. When it raises, the error is the one the
  \<open>m\<close>-th call raised; when it returns, all sixteen calls were made and both files are
  gone.\<close>

definition post :: "world \<Rightarrow> (error + unit) \<times> world \<Rightarrow> bool" where
  "post w rw =
     (case rw of (r, w') \<Rightarrow>
        (let m = length (trace w') - length (trace w);
             bound = (case r of Inl e \<Rightarrow> m | Inr u \<Rightarrow> Suc m)
         in now w' = now w \<and> tmpdir w' = tmpdir w \<and> fault w' = fault w \<and> stderr w' = stderr w \<and>
            trace w' = trace w @ take m (calls w) \<and> 0 < m \<and> m \<le> 16 \<and>
            stdout w' =
              stdout w @ map (line (now w) (ticks w)) (filter (\<lambda>(l, s, e, c). c < bound) timed) \<and>
            (\<forall>p. p \<noteq> testFile w \<longrightarrow> p \<noteq> dbPath w \<longrightarrow> fs w' p = fs w p) \<and>
            (\<forall>k<m - 1. fault w (length (trace w) + k) = None) \<and>
            (case r of
               Inl e \<Rightarrow>
                 fault w (length (trace w) + (m - 1)) = Some e \<or>
                 (m = 5 \<and> e = Not_a_database (dbPath w) \<and> fault w (length (trace w) + 4) = None \<and>
                  (\<exists>s. s \<noteq> [] \<and> fs w (dbPath w) = Some (Plain s)))
             | Inr u \<Rightarrow>
                 m = 16 \<and> ticks w' = ticks w + 20 \<and> fault w (length (trace w) + 15) = None \<and>
                 fs w' (testFile w) = None \<and> fs w' (dbPath w) = None)))"

text \<open>The databases the schema and fixture steps go through: the five tables dropped, and
  the five tables with given rows. The rows are the ones the fixture statements produce,
  with the keys the engine assigns.\<close>

definition dropped :: "database \<Rightarrow> database" where
  "dropped d = d(''order_items'' := None, ''orders'' := None, ''products'' := None,
                ''categories'' := None, ''customers'' := None)"

definition customers_rows :: "string \<Rightarrow> row list" where
  "customers_rows ts =
     [[(''customer_id'', Integer 1), (''name'', Text ''John Doe''),
       (''email'', Text ''john@example.com''), (''created_at'', Text ts)],
      [(''customer_id'', Integer 2), (''name'', Text ''Jane Smith''),
       (''email'', Text ''jane@example.com''), (''created_at'', Text ts)],
      [(''customer_id'', Integer 3), (''name'', Text ''Bob Johnson''),
       (''email'', Text ''bob@example.com''), (''created_at'', Text ts)]]"

definition categories_rows :: "row list" where
  "categories_rows =
     [[(''category_id'', Integer 1), (''name'', Text ''Electronics''), (''parent_id'', Null)],
      [(''category_id'', Integer 2), (''name'', Text ''Computers''), (''parent_id'', Integer 1)],
      [(''category_id'', Integer 3), (''name'', Text ''Smartphones''), (''parent_id'', Integer 1)],
      [(''category_id'', Integer 4), (''name'', Text ''Clothing''), (''parent_id'', Null)],
      [(''category_id'', Integer 5), (''name'', Text ''Men''), (''parent_id'', Integer 4)],
      [(''category_id'', Integer 6), (''name'', Text ''Women''), (''parent_id'', Integer 4)]]"

definition products_rows :: "row list" where
  "products_rows =
     [[(''product_id'', Integer 1), (''name'', Text ''Premium Laptop''),
       (''description'', Text ''High-end laptop with premium features''),
       (''price'', Decimal 129999 2), (''category_id'', Integer 2)],
      [(''product_id'', Integer 2), (''name'', Text ''Smartphone Pro''),
       (''description'', Text ''Latest smartphone with exclusive features''),
       (''price'', Decimal 99999 2), (''category_id'', Integer 3)],
      [(''product_id'', Integer 3), (''name'', Text ''Classic T-Shirt''),
       (''description'', Text ''Comfortable cotton t-shirt''),
       (''price'', Decimal 2999 2), (''category_id'', Integer 5)],
      [(''product_id'', Integer 4), (''name'', Text ''Designer Dress''),
       (''description'', Text ''Elegant designer dress''),
       (''price'', Decimal 19999 2), (''category_id'', Integer 6)]]"

definition orders_rows :: "string \<Rightarrow> row list" where
  "orders_rows ts =
     [[(''order_id'', Integer 1), (''customer_id'', Integer 1), (''order_date'', Text ts),
       (''total_amount'', Decimal 132998 2)],
      [(''order_id'', Integer 2), (''customer_id'', Integer 1), (''order_date'', Text ts),
       (''total_amount'', Decimal 22998 2)],
      [(''order_id'', Integer 3), (''customer_id'', Integer 2), (''order_date'', Text ts),
       (''total_amount'', Decimal 99999 2)],
      [(''order_id'', Integer 4), (''customer_id'', Integer 3), (''order_date'', Text ts),
       (''total_amount'', Decimal 19999 2)]]"

definition order_items_rows :: "row list" where
  "order_items_rows =
     [[(''order_item_id'', Integer 1), (''order_id'', Integer 1), (''product_id'', Integer 1),
       (''quantity'', Integer 1), (''price'', Decimal 129999 2)],
      [(''order_item_id'', Integer 2), (''order_id'', Integer 1), (''product_id'', Integer 3),
       (''quantity'', Integer 1), (''price'', Decimal 2999 2)],
      [(''order_item_id'', Integer 3), (''order_id'', Integer 2), (''product_id'', Integer 3),
       (''quantity'', Integer 2), (''price'', Decimal 2999 2)],
      [(''order_item_id'', Integer 4), (''order_id'', Integer 3), (''product_id'', Integer 2),
       (''quantity'', Integer 1), (''price'', Decimal 99999 2)],
      [(''order_item_id'', Integer 5), (''order_id'', Integer 4), (''product_id'', Integer 4),
       (''quantity'', Integer 1), (''price'', Decimal 19999 2)]]"

definition tables :: "row list \<Rightarrow> row list \<Rightarrow> row list \<Rightarrow> row list \<Rightarrow> row list \<Rightarrow> database \<Rightarrow> database" where
  "tables cu ca pr od oi d = (dropped d)
     (''customers'' \<mapsto> \<lparr>columns = customers_columns, fkeys = [], rows = cu\<rparr>,
      ''categories'' \<mapsto> \<lparr>columns = categories_columns,
         fkeys = [FOREIGN_KEY ''parent_id'' ''categories'' ''category_id''], rows = ca\<rparr>,
      ''products'' \<mapsto> \<lparr>columns = products_columns,
         fkeys = [FOREIGN_KEY ''category_id'' ''categories'' ''category_id''], rows = pr\<rparr>,
      ''orders'' \<mapsto> \<lparr>columns = orders_columns,
         fkeys = [FOREIGN_KEY ''customer_id'' ''customers'' ''customer_id''], rows = od\<rparr>,
      ''order_items'' \<mapsto> \<lparr>columns = order_items_columns,
         fkeys = [FOREIGN_KEY ''order_id'' ''orders'' ''order_id'',
                  FOREIGN_KEY ''product_id'' ''products'' ''product_id''], rows = oi\<rparr>)"


text \<open>Concrete worlds for the examples. The clock's \<open>i\<close>-th reading is \<open>i * i\<close>. In
  \<open>read_fails\<close> the environment fails the second library call; \<open>fresh_db\<close> has an open,
  empty database; \<open>stale\<close> has an unrelated file and a database file left by an earlier
  run, with a table \<^verbatim>\<open>orders\<close> of another shape.\<close>

definition quiet :: world where
  "quiet =
     \<lparr>now = (\<lambda>i. int (i * i)), ticks = 0, tmpdir = ''/tmp'',
      current_timestamp = ''2024-05-01 12:00:00'',
      answer = (\<lambda>q d. []), db_bytes = (\<lambda>d. []), fault = (\<lambda>n. None),
      fs = Map.empty, opened = {}, stdout = [], stderr = [], trace = []\<rparr>"

definition read_fails :: world where
  "read_fails = quiet\<lparr>fault := (\<lambda>n. if n = 1 then Some (Fault ''EIO'') else None)\<rparr>"

definition fresh_db :: world where
  "fresh_db =
     quiet\<lparr>fs := [''/tmp/sql_benchmark.db'' \<mapsto> Sqlite Map.empty],
            opened := {''/tmp/sql_benchmark.db''}\<rparr>"

definition stale :: world where
  "stale =
     quiet\<lparr>fs := [''/etc/hostname'' \<mapsto> Plain ''bench'',
                   ''/tmp/sql_benchmark.db'' \<mapsto>
                     Sqlite [''orders'' \<mapsto>
                       \<lparr>columns = [Column ''note'' TEXT []], fkeys = [],
                        rows = [[(''note'', Text ''stale'')]]\<rparr>]]\<rparr>"

definition leftover_db :: world where
  "leftover_db = stale\<lparr>opened := {''/tmp/sql_benchmark.db''}\<rparr>"

section \<open>The engine on the script's statements\<close>

lemma drop_tables_run: "exec_batch ts drop_tables d = (Inr (), dropped d)"
  by (simp add: drop_tables_def dropped_def)

lemma create_tables_run: "exec_batch ts create_tables (dropped d) = (Inr (), tables [] [] [] [] [] d)"
  by (simp add: create_tables_def tables_def dropped_def)

lemma insert_customers_run:
  "exec_batch ts insert_customers (tables [] ca pr od oi d) =
     (Inr (), tables (customers_rows ts) ca pr od oi d)"
  apply (simp add: tables_def insert_customers_def customers_columns_def customers_rows_def
      List.map_filter_def next_key_def)
  apply (simp add: fun_eq_iff)
  done

lemma insert_categories_run:
  "exec_batch ts insert_categories (tables cu [] pr od oi d) =
     (Inr (), tables cu categories_rows pr od oi d)"
  apply (simp add: tables_def insert_categories_def categories_columns_def categories_rows_def
      List.map_filter_def next_key_def)
  apply (simp add: fun_eq_iff)
  done

lemma insert_products_run:
  "exec_batch ts insert_products (tables cu ca [] od oi d) =
     (Inr (), tables cu ca products_rows od oi d)"
  apply (simp add: tables_def insert_products_def products_columns_def products_rows_def
      List.map_filter_def next_key_def)
  apply (simp add: fun_eq_iff)
  done

lemma insert_orders_run:
  "exec_batch ts insert_orders (tables cu ca pr [] [] d) =
     (Inr (), tables cu ca pr (orders_rows ts) order_items_rows d)"
  apply (simp add: tables_def insert_orders_def orders_columns_def orders_rows_def
      order_items_columns_def order_items_rows_def List.map_filter_def next_key_def)
  done

lemma tables_lookup [simp]:
  "tables cu ca pr od oi d ''customers'' = Some \<lparr>columns = customers_columns, fkeys = [], rows = cu\<rparr>"
  "tables cu ca pr od oi d ''categories'' = Some \<lparr>columns = categories_columns,
         fkeys = [FOREIGN_KEY ''parent_id'' ''categories'' ''category_id''], rows = ca\<rparr>"
  "tables cu ca pr od oi d ''products'' = Some \<lparr>columns = products_columns,
         fkeys = [FOREIGN_KEY ''category_id'' ''categories'' ''category_id''], rows = pr\<rparr>"
  "tables cu ca pr od oi d ''orders'' = Some \<lparr>columns = orders_columns,
         fkeys = [FOREIGN_KEY ''customer_id'' ''customers'' ''customer_id''], rows = od\<rparr>"
  "tables cu ca pr od oi d ''order_items'' = Some \<lparr>columns = order_items_columns,
         fkeys = [FOREIGN_KEY ''order_id'' ''orders'' ''order_id'',
                  FOREIGN_KEY ''product_id'' ''products'' ''product_id''], rows = oi\<rparr>"
  by (simp_all add: tables_def)

lemma queries_run: "find (\<lambda>t. tables cu ca pr od oi d t = None) (reads q) = None"
  by (cases q) simp_all


section \<open>Running the script step by step\<close>

text \<open>Each call, followed by the rest of the program \<open>f\<close>: either the environment fails
  it, or it does what the library does and \<open>f\<close> goes on.\<close>

lemma fold_skip: "fold (\<lambda>i w. w) xs w = w"
  by (induction xs) simp_all

lemma sqrt_loop_run: "sqrt_loop w = (Inr (), w)"
  by (simp add: sqrt_loop_def fold_skip)

lemma lib_call_if:
  "lib_call c body w =
     (if fault w (length (trace w)) = None then body (w\<lparr>trace := trace w @ [c]\<rparr>)
      else (Inl (the (fault w (length (trace w)))), w\<lparr>trace := trace w @ [c]\<rparr>))"
  by (simp add: lib_call_def split: option.splits)

lemma load_Sqlite: "load p (Some (Sqlite d)) = Inr d"
  by (simp add: load_def)

lemma paths_differ:
  "path_join d ''benchmark_test.txt'' \<noteq> path_join d ''sql_benchmark.db''"
  "path_join d ''sql_benchmark.db'' \<noteq> path_join d ''benchmark_test.txt''"
  by (simp_all add: path_join_def)

lemma bind_assoc: "io_bind (io_bind m g) f = io_bind m (\<lambda>x. io_bind (g x) f)"
  by (auto simp add: io_bind_def fun_eq_iff split: prod.splits sum.splits)

lemma bind_hrtime: "io_bind hrtime_bigint f w = f (now w (ticks w)) (w\<lparr>ticks := Suc (ticks w)\<rparr>)"
  by (simp add: io_bind_def hrtime_bigint_def)

lemma bind_log: "io_bind (console_log s) f w = f () (w\<lparr>stdout := stdout w @ [s]\<rparr>)"
  by (simp add: io_bind_def console_log_def)

lemma bind_tmpdir: "io_bind os_tmpdir f w = f (tmpdir w) w"
  by (simp add: io_bind_def os_tmpdir_def)

lemma bind_sqrt: "io_bind sqrt_loop f w = f () w"
  by (simp add: io_bind_def sqrt_loop_run)

lemma bind_write:
  "io_bind (writeFileSync p data) f w =
     (if fault w (length (trace w)) = None
      then f () (w\<lparr>trace := trace w @ [WriteFile p], fs := (fs w)(p \<mapsto> Plain data)\<rparr>)
      else (Inl (the (fault w (length (trace w)))), w\<lparr>trace := trace w @ [WriteFile p]\<rparr>))"
  by (simp add: io_bind_def writeFileSync_def lib_call_if)

lemma bind_read:
  "io_bind (readFileSync p) f w =
     (if fault w (length (trace w)) = None
      then (case fs w p of
              None \<Rightarrow> (Inl (No_such_file p), w\<lparr>trace := trace w @ [ReadFile p]\<rparr>)
            | Some (Plain s) \<Rightarrow> f s (w\<lparr>trace := trace w @ [ReadFile p]\<rparr>)
            | Some (Sqlite d) \<Rightarrow> f (db_bytes w d) (w\<lparr>trace := trace w @ [ReadFile p]\<rparr>))
      else (Inl (the (fault w (length (trace w)))), w\<lparr>trace := trace w @ [ReadFile p]\<rparr>))"
  by (simp add: io_bind_def readFileSync_def lib_call_if split: option.splits content.splits)

lemma unlink_run:
  "unlinkSync p w =
     (if fault w (length (trace w)) = None
      then (case fs w p of
              None \<Rightarrow> (Inl (No_such_file p), w\<lparr>trace := trace w @ [Unlink p]\<rparr>)
            | Some c \<Rightarrow> (Inr (), w\<lparr>trace := trace w @ [Unlink p], fs := (fs w)(p := None)\<rparr>))
      else (Inl (the (fault w (length (trace w)))), w\<lparr>trace := trace w @ [Unlink p]\<rparr>))"
  by (simp add: unlinkSync_def lib_call_if split: option.splits)

lemma bind_unlink:
  "io_bind (unlinkSync p) f w =
     (if fault w (length (trace w)) = None
      then (case fs w p of
              None \<Rightarrow> (Inl (No_such_file p), w\<lparr>trace := trace w @ [Unlink p]\<rparr>)
            | Some c \<Rightarrow> f () (w\<lparr>trace := trace w @ [Unlink p], fs := (fs w)(p := None)\<rparr>))
      else (Inl (the (fault w (length (trace w)))), w\<lparr>trace := trace w @ [Unlink p]\<rparr>))"
  by (simp add: io_bind_def unlink_run split: option.splits)

lemma bind_open:
  "io_bind (sqlite_open p) f w =
     (if fault w (length (trace w)) = None
      then f p (w\<lparr>trace := trace w @ [Open p],
                 fs := (fs w)(p \<mapsto> (case fs w p of None \<Rightarrow> Sqlite Map.empty | Some c \<Rightarrow> c)),
                 opened := insert p (opened w)\<rparr>)
      else (Inl (the (fault w (length (trace w)))), w\<lparr>trace := trace w @ [Open p]\<rparr>))"
  by (simp add: io_bind_def sqlite_open_def lib_call_if)

lemma exec_run:
  "db_exec db stmts w =
     (if fault w (length (trace w)) = None
      then (if db \<notin> opened w then (Inl (Misuse db), w\<lparr>trace := trace w @ [Exec db]\<rparr>)
            else (case load db (fs w db) of
                    Inl e \<Rightarrow> (Inl e, w\<lparr>trace := trace w @ [Exec db]\<rparr>)
                  | Inr d \<Rightarrow>
                      (fst (exec_batch (current_timestamp w) stmts d),
                       w\<lparr>trace := trace w @ [Exec db],
                         fs := (fs w)(db \<mapsto> Sqlite (snd (exec_batch (current_timestamp w) stmts d)))\<rparr>)))
      else (Inl (the (fault w (length (trace w)))), w\<lparr>trace := trace w @ [Exec db]\<rparr>))"
  by (simp add: db_exec_def lib_call_if split: sum.splits prod.splits)

lemma bind_exec:
  "io_bind (db_exec db stmts) f w =
     (if fault w (length (trace w)) = None
      then (if db \<notin> opened w then (Inl (Misuse db), w\<lparr>trace := trace w @ [Exec db]\<rparr>)
            else (case load db (fs w db) of
                    Inl e \<Rightarrow> (Inl e, w\<lparr>trace := trace w @ [Exec db]\<rparr>)
                  | Inr d \<Rightarrow>
                      (case fst (exec_batch (current_timestamp w) stmts d) of
                         Inl e \<Rightarrow>
                           (Inl e, w\<lparr>trace := trace w @ [Exec db],
                                     fs := (fs w)(db \<mapsto> Sqlite (snd (exec_batch (current_timestamp w) stmts d)))\<rparr>)
                       | Inr u \<Rightarrow>
                           f () (w\<lparr>trace := trace w @ [Exec db],
                                   fs := (fs w)(db \<mapsto> Sqlite (snd (exec_batch (current_timestamp w) stmts d)))\<rparr>))))
      else (Inl (the (fault w (length (trace w)))), w\<lparr>trace := trace w @ [Exec db]\<rparr>))"
  by (simp add: io_bind_def exec_run split: sum.splits)

lemma bind_all:
  "io_bind (db_all db q) f w =
     (if fault w (length (trace w)) = None
      then (if db \<notin> opened w then (Inl (Misuse db), w\<lparr>trace := trace w @ [Db_all db]\<rparr>)
            else (case load db (fs w db) of
                    Inl e \<Rightarrow> (Inl e, w\<lparr>trace := trace w @ [Db_all db]\<rparr>)
                  | Inr d \<Rightarrow>
                      (case find (\<lambda>t. d t = None) (reads q) of
                         Some t \<Rightarrow> (Inl (No_such_table t), w\<lparr>trace := trace w @ [Db_all db]\<rparr>)
                       | None \<Rightarrow> f (answer w q d) (w\<lparr>trace := trace w @ [Db_all db]\<rparr>))))
      else (Inl (the (fault w (length (trace w)))), w\<lparr>trace := trace w @ [Db_all db]\<rparr>))"
  by (simp add: io_bind_def db_all_def lib_call_if split: sum.splits option.splits)

lemma bind_close:
  "io_bind (db_close db) f w =
     (if fault w (length (trace w)) = None
      then (if db \<notin> opened w then (Inl (Misuse db), w\<lparr>trace := trace w @ [Close db]\<rparr>)
            else f () (w\<lparr>trace := trace w @ [Close db], opened := opened w - {db}\<rparr>))
      else (Inl (the (fault w (length (trace w)))), w\<lparr>trace := trace w @ [Close db]\<rparr>))"
  by (simp add: io_bind_def db_close_def lib_call_if)

lemmas steps = bind_assoc bind_hrtime bind_log bind_tmpdir bind_sqrt bind_write bind_read
  bind_unlink bind_open bind_exec bind_all bind_close console_log_def Let_def
  load_Sqlite paths_differ
  drop_tables_run create_tables_run insert_customers_run insert_categories_run
  insert_products_run insert_orders_run queries_run


lemmas post_simps = post_def Let_def calls_def timed_def line_def testFile_def dbPath_def
  eval_nat_numeral All_less_Suc

lemma bench_post: "post w (bench w)"
  apply (simp add: bench_def bench_simple_def bench_sql_def createSchema_def insertTestData_def
      steps split del: if_split)
  apply (simp (no_asm_simp) add: steps split del: if_split
      | intro conjI impI allI
      | split if_split
      | split sum.split
      | (simp add: post_simps; fail)
      | (auto simp add: post_simps load_def split: option.splits content.splits if_splits; fail))+
  done

section \<open>What every run of the benchmark leaves behind\<close>

lemma bench_returns:
  assumes "bench w = (Inr (), w')"
  shows "stdout w' = stdout w @ map (line (now w) (ticks w)) timed"
    and "trace w' = trace w @ calls w"
    and "ticks w' = ticks w + 20"
    and "fs w' (testFile w) = None" and "fs w' (dbPath w) = None"
    and "\<forall>k<16. fault w (length (trace w) + k) = None"
proof -
  from bench_post [of w] assms have p: "post w (Inr (), w')" by simp
  then have m: "length (trace w') - length (trace w) = 16"
    by (simp add: post_def Let_def)
  from p m show "stdout w' = stdout w @ map (line (now w) (ticks w)) timed"
    by (simp add: post_def timed_def)
  from p m show "trace w' = trace w @ calls w"
    by (simp add: post_def calls_def)
  from p show "ticks w' = ticks w + 20" "fs w' (testFile w) = None" "fs w' (dbPath w) = None"
    by (simp_all add: post_def Let_def)
  from p m have "\<forall>k<15. fault w (length (trace w) + k) = None" "fault w (length (trace w) + 15) = None"
    by (simp_all add: post_def)
  then show "\<forall>k<16. fault w (length (trace w) + k) = None"
    by (metis less_Suc_eq eval_nat_numeral(3) Suc_numeral semiring_norm(2,8))
qed

lemma bench_raises:
  assumes "bench w = (Inl e, w')"
  obtains m where "0 < m" "m \<le> 16" "length (trace w') = length (trace w) + m"
    and "trace w' = trace w @ take m (calls w)"
    and "stdout w' = stdout w @ map (line (now w) (ticks w)) (filter (\<lambda>(l, s, e, c). c < m) timed)"
    and "\<forall>k<m - 1. fault w (length (trace w) + k) = None"
    and "fault w (length (trace w) + (m - 1)) = Some e \<or>
         (m = 5 \<and> e = Not_a_database (dbPath w) \<and> fault w (length (trace w) + 4) = None \<and>
          (\<exists>s. s \<noteq> [] \<and> fs w (dbPath w) = Some (Plain s)))"
proof -
  from bench_post [of w] assms have p: "post w (Inl e, w')" by simp
  define m where "m = length (trace w') - length (trace w)"
  from p have t: "trace w' = trace w @ take m (calls w)" and m: "0 < m" "m \<le> 16"
    by (simp_all add: post_def Let_def m_def)
  have "length (calls w) = 16" by (simp add: calls_def)
  with t m have "length (trace w') = length (trace w) + m"
    by (metis length_append length_take min.absorb2)
  moreover from p have "stdout w' = stdout w @ map (line (now w) (ticks w)) (filter (\<lambda>(l, s, e, c). c < m) timed)"
     "\<forall>k<m - 1. fault w (length (trace w) + k) = None"
     "fault w (length (trace w) + (m - 1)) = Some e \<or>
         (m = 5 \<and> e = Not_a_database (dbPath w) \<and> fault w (length (trace w) + 4) = None \<and>
          (\<exists>s. s \<noteq> [] \<and> fs w (dbPath w) = Some (Plain s)))"
    unfolding post_def Let_def m_def prod.case sum.case by blast+
  ultimately show thesis using that t m by blast
qed

lemma bench_frame:
  assumes "bench w = (r, w')"
  shows "now w' = now w" "tmpdir w' = tmpdir w" "fault w' = fault w" "stderr w' = stderr w"
    and "p \<noteq> testFile w \<Longrightarrow> p \<noteq> dbPath w \<Longrightarrow> fs w' p = fs w p"
    and "\<exists>m\<le>16. trace w' = trace w @ take m (calls w)"
    and "\<exists>n\<le>10. stdout w' = stdout w @ map (line (now w) (ticks w)) (take n timed)"
proof -
  from bench_post [of w] assms have p: "post w (r, w')" by simp
  then show "now w' = now w" "tmpdir w' = tmpdir w" "fault w' = fault w" "stderr w' = stderr w"
    by (simp_all add: post_def Let_def)
  from p show "p \<noteq> testFile w \<Longrightarrow> p \<noteq> dbPath w \<Longrightarrow> fs w' p = fs w p"
    by (simp add: post_def Let_def)
  from p show "\<exists>m\<le>16. trace w' = trace w @ take m (calls w)"
    by (auto simp add: post_def Let_def)
  have pre: "\<exists>n\<le>10. filter (\<lambda>(l, s, e, c). c < b) timed = take n timed" for b
  proof -
    consider "b = 0" | "b = 1" | "b = 2" | "3 \<le> b" "b \<le> 6" | "7 \<le> b" "b \<le> 10" | "b = 11" | "b = 12" | "b = 13" | "b = 14"
      | "15 \<le> b" "b \<le> 16" | "17 \<le> b" by linarith
    then show ?thesis
      apply cases
      apply (rule exI [of _ 0], simp add: timed_def)
      apply (rule exI [of _ 1], simp add: timed_def)
      apply (rule exI [of _ 2], simp add: timed_def)
      apply (rule exI [of _ 3], simp add: timed_def)
      apply (rule exI [of _ 4], simp add: timed_def)
      apply (rule exI [of _ 5], simp add: timed_def)
      apply (rule exI [of _ 6], simp add: timed_def)
      apply (rule exI [of _ 7], simp add: timed_def)
      apply (rule exI [of _ 8], simp add: timed_def)
      apply (rule exI [of _ 9], simp add: timed_def)
      apply (rule exI [of _ 10], simp add: timed_def)
      done
  qed
  from p pre show "\<exists>n\<le>10. stdout w' = stdout w @ map (line (now w) (ticks w)) (take n timed)"
    by (simp add: post_def Let_def) metis
qed

lemma bench_succeeds:
  assumes nofault: "\<forall>k<16. fault w (length (trace w) + k) = None"
    and dbfile: "\<forall>s. fs w (dbPath w) = Some (Plain s) \<longrightarrow> s = []"
  shows "fst (bench w) = Inr ()"
proof (cases "fst (bench w)")
  case (Inl e)
  then have "bench w = (Inl e, snd (bench w))" by (simp add: prod_eq_iff)
  then show ?thesis
  proof (rule bench_raises)
    fix m
    assume "0 < m" "m \<le> 16"
      and "fault w (length (trace w) + (m - 1)) = Some e \<or>
         (m = 5 \<and> e = Not_a_database (dbPath w) \<and> fault w (length (trace w) + 4) = None \<and>
          (\<exists>s. s \<noteq> [] \<and> fs w (dbPath w) = Some (Plain s)))"
    with nofault dbfile show ?thesis by (auto dest: spec [of _ "m - 1"])
  qed
next
  case (Inr u)
  then show ?thesis by simp
qed

lemma bench_fails_at:
  assumes k: "k < 16"
    and before: "\<forall>j<k. fault w (length (trace w) + j) = None"
    and at: "fault w (length (trace w) + k) = Some e"
    and dbfile: "k \<le> 4 \<or> (\<forall>s. fs w (dbPath w) = Some (Plain s) \<longrightarrow> s = [])"
  shows "\<exists>w'. bench w = (Inl e, w') \<and> trace w' = trace w @ take (Suc k) (calls w) \<and>
           stdout w' =
             stdout w @ map (line (now w) (ticks w)) (filter (\<lambda>(l, s, e, c). c < Suc k) timed)"
proof (cases "fst (bench w)")
  case (Inr u)
  then have "bench w = (Inr (), snd (bench w))" by (simp add: prod_eq_iff)
  from bench_returns(6) [OF this] k at show ?thesis by auto
next
  case (Inl e')
  then have b: "bench w = (Inl e', snd (bench w))" by (simp add: prod_eq_iff)
  show ?thesis
  proof (rule bench_raises [OF b])
    fix m
    assume m: "0 < m" "m \<le> 16"
      and t: "trace (snd (bench w)) = trace w @ take m (calls w)"
      and s: "stdout (snd (bench w)) =
           stdout w @ map (line (now w) (ticks w)) (filter (\<lambda>(l, s, e, c). c < m) timed)"
      and none: "\<forall>k<m - 1. fault w (length (trace w) + k) = None"
      and why: "fault w (length (trace w) + (m - 1)) = Some e' \<or>
         (m = 5 \<and> e' = Not_a_database (dbPath w) \<and> fault w (length (trace w) + 4) = None \<and>
          (\<exists>s. s \<noteq> [] \<and> fs w (dbPath w) = Some (Plain s)))"
    from none at have le: "m - 1 \<le> k" by (metis not_less option.distinct(1))
    from why have "m - 1 = k \<and> e' = e"
    proof
      assume f: "fault w (length (trace w) + (m - 1)) = Some e'"
      with before have "\<not> m - 1 < k" by auto
      with le have "m - 1 = k" by simp
      with f at show ?thesis by simp
    next
      assume n: "m = 5 \<and> e' = Not_a_database (dbPath w) \<and> fault w (length (trace w) + 4) = None \<and>
          (\<exists>s. s \<noteq> [] \<and> fs w (dbPath w) = Some (Plain s))"
      with le at have "4 < k" by (cases "k = 4") auto
      with dbfile n show ?thesis by auto
    qed
    with m have "m = Suc k" "e' = e" by auto
    with b t s show ?thesis by auto
  qed
qed

lemma bench_quiet: "bench quiet = (Inr (), snd (bench quiet))"
proof -
  have "fst (bench quiet) = Inr ()"
    by (rule bench_succeeds) (simp_all add: quiet_def)
  then show ?thesis by (simp add: prod_eq_iff)
qed


lemma bench_read_fails:
  "bench read_fails = (Inl (Fault ''EIO''), snd (bench read_fails))"
  "trace (snd (bench read_fails)) =
     [WriteFile ''/tmp/benchmark_test.txt'', ReadFile ''/tmp/benchmark_test.txt'']"
proof -
  have "\<exists>w'. bench read_fails = (Inl (Fault ''EIO''), w') \<and>
          trace w' = trace read_fails @ take (Suc 1) (calls read_fails) \<and>
          stdout w' = stdout read_fails @ map (line (now read_fails) (ticks read_fails))
             (filter (\<lambda>(l, s, e, c). c < Suc 1) timed)"
    by (rule bench_fails_at) (simp_all add: read_fails_def quiet_def)
  then obtain w' where b: "bench read_fails = (Inl (Fault ''EIO''), w')"
    and t: "trace w' = trace read_fails @ take (Suc 1) (calls read_fails)" by blast
  from b show "bench read_fails = (Inl (Fault ''EIO''), snd (bench read_fails))" by simp
  from b t show "trace (snd (bench read_fails)) =
     [WriteFile ''/tmp/benchmark_test.txt'', ReadFile ''/tmp/benchmark_test.txt'']"
    by (simp add: read_fails_def quiet_def calls_def testFile_def path_join_def)
qed

lemmas show_simps = template_def bigint_str_def nat_str.simps digit_char_def

lemma bench_output:
  assumes "bench w = (Inr (), w')"
  shows "stdout w' = stdout w @
     [template ''Square root execution time: '' (now w (ticks w + 1) - now w (ticks w)) '' nanoseconds'',
      template ''Write execution time: '' (now w (ticks w + 3) - now w (ticks w + 2)) '' nanoseconds'',
      template ''Read execution time: '' (now w (ticks w + 5) - now w (ticks w + 4)) '' nanoseconds'',
      template ''Schema creation time: '' (now w (ticks w + 8) - now w (ticks w + 7)) '' nanoseconds'',
      template ''Data insertion time: '' (now w (ticks w + 10) - now w (ticks w + 9)) '' nanoseconds'',
      template ''Complex JOIN query time: '' (now w (ticks w + 12) - now w (ticks w + 11)) '' nanoseconds'',
      template ''Recursive CTE query time: '' (now w (ticks w + 14) - now w (ticks w + 13)) '' nanoseconds'',
      template ''Complex aggregation time: '' (now w (ticks w + 16) - now w (ticks w + 15)) '' nanoseconds'',
      template ''Full-text search time: '' (now w (ticks w + 18) - now w (ticks w + 17)) '' nanoseconds'',
      template ''Total SQL benchmark time: '' (now w (ticks w + 19) - now w (ticks w + 6)) '' nanoseconds'']"
  using bench_returns(1) [OF assms] by (simp add: timed_def line_def)

lemma mono_quiet: "mono (now quiet)"
  by (auto simp add: quiet_def intro!: monoI mult_mono)


lemma createSchema_post:
  "case createSchema db w of
     (Inl e, w') \<Rightarrow> True
   | (Inr u, w') \<Rightarrow>
       (\<exists>d. load db (fs w db) = Inr d \<and> db \<in> opened w \<and>
            w' = w\<lparr>trace := trace w @ [Exec db, Exec db],
                   fs := (fs w)(db \<mapsto> Sqlite (tables [] [] [] [] [] d))\<rparr>)"
  apply (simp add: createSchema_def steps exec_run split del: if_split)
  apply (simp (no_asm_simp) add: steps exec_run split del: if_split
      | intro conjI impI allI
      | split if_split
      | split sum.split)+
  done

lemma createSchema_returns:
  assumes "createSchema db w = (Inr (), w')"
  obtains d where "load db (fs w db) = Inr d" and "db \<in> opened w"
    and "w' = w\<lparr>trace := trace w @ [Exec db, Exec db],
                fs := (fs w)(db \<mapsto> Sqlite (tables [] [] [] [] [] d))\<rparr>"
  using createSchema_post [of db w] assms by auto

lemma createSchema_succeeds:
  assumes "db \<in> opened w" and "load db (fs w db) = Inr d"
    and "fault w (length (trace w)) = None" and "fault w (Suc (length (trace w))) = None"
  shows "createSchema db w =
           (Inr (), w\<lparr>trace := trace w @ [Exec db, Exec db],
                      fs := (fs w)(db \<mapsto> Sqlite (tables [] [] [] [] [] d))\<rparr>)"
  using assms by (simp add: createSchema_def steps exec_run)

lemma insertTestData_post:
  assumes "fs w db = Some (Sqlite (tables [] [] [] [] [] d))"
  shows "case insertTestData db w of
           (Inl e, w') \<Rightarrow> True
         | (Inr u, w') \<Rightarrow>
             fs w' db =
               Some (Sqlite (tables (customers_rows (current_timestamp w)) categories_rows
                 products_rows (orders_rows (current_timestamp w)) order_items_rows d))"
  using assms
  apply (simp add: insertTestData_def steps exec_run split del: if_split)
  apply (simp (no_asm_simp) add: steps exec_run split del: if_split
      | intro conjI impI allI
      | split if_split)+
  done

lemma insertTestData_succeeds:
  assumes "db \<in> opened w" and "fs w db = Some (Sqlite (tables [] [] [] [] [] d))"
    and "fault w (length (trace w)) = None"
    and "fault w (Suc (length (trace w))) = None"
    and "fault w (Suc (Suc (length (trace w)))) = None"
    and "fault w (Suc (Suc (Suc (length (trace w))))) = None"
  shows "fst (insertTestData db w) = Inr ()"
  using assms by (simp add: insertTestData_def steps exec_run)

lemma dom_tables:
  "dom (tables cu ca pr od oi d) =
     dom d \<union> {''customers'', ''categories'', ''products'', ''orders'', ''order_items''}"
  by (auto simp add: tables_def dropped_def split: if_splits)

lemma tables_fresh:
  assumes "dom d \<subseteq> {''customers'', ''categories'', ''products'', ''orders'', ''order_items''}"
  shows "tables cu ca pr od oi d = tables cu ca pr od oi Map.empty"
proof (rule ext)
  fix t
  show "tables cu ca pr od oi d t = tables cu ca pr od oi Map.empty t"
  proof (cases "t \<in> dom d")
    case True
    with assms have "t \<in> {''customers'', ''categories'', ''products'', ''orders'', ''order_items''}"
      by (rule subsetD)
    then have "t = ''customers'' \<or> t = ''categories'' \<or> t = ''products'' \<or> t = ''orders'' \<or>
        t = ''order_items''" by simp
    then show ?thesis by (elim disjE) simp_all
  next
    case False
    then have "d t = None" by (simp add: domIff)
    then show ?thesis by (simp add: tables_def dropped_def)
  qed
qed

lemma tables_again: "tables cu ca pr od oi (tables cu' ca' pr' od' oi' d) = tables cu ca pr od oi d"
  by (rule ext) (simp add: tables_def dropped_def)

lemma row_count_tables:
  "row_count ''customers'' (tables cu ca pr od oi d) = Inr (length cu)"
  "row_count ''categories'' (tables cu ca pr od oi d) = Inr (length ca)"
  "row_count ''products'' (tables cu ca pr od oi d) = Inr (length pr)"
  "row_count ''orders'' (tables cu ca pr od oi d) = Inr (length od)"
  "row_count ''order_items'' (tables cu ca pr od oi d) = Inr (length oi)"
  by (simp_all add: row_count_def)

lemma createSchema_fresh_db:
  "createSchema ''/tmp/sql_benchmark.db'' fresh_db =
     (Inr (), snd (createSchema ''/tmp/sql_benchmark.db'' fresh_db))"
  "fs (snd (createSchema ''/tmp/sql_benchmark.db'' fresh_db)) ''/tmp/sql_benchmark.db'' =
     Some (Sqlite (tables [] [] [] [] [] Map.empty))"
  "''/tmp/sql_benchmark.db'' \<in> opened (snd (createSchema ''/tmp/sql_benchmark.db'' fresh_db))"
  "fault (snd (createSchema ''/tmp/sql_benchmark.db'' fresh_db)) = (\<lambda>n. None)"
proof -
  have "createSchema ''/tmp/sql_benchmark.db'' fresh_db =
          (Inr (), fresh_db\<lparr>trace := trace fresh_db @
                       [Exec ''/tmp/sql_benchmark.db'', Exec ''/tmp/sql_benchmark.db''],
                     fs := (fs fresh_db)(''/tmp/sql_benchmark.db'' \<mapsto>
                       Sqlite (tables [] [] [] [] [] Map.empty))\<rparr>)"
    by (rule createSchema_succeeds) (simp_all add: load_Sqlite fresh_db_def quiet_def)
  then show
    "createSchema ''/tmp/sql_benchmark.db'' fresh_db =
       (Inr (), snd (createSchema ''/tmp/sql_benchmark.db'' fresh_db))"
    "fs (snd (createSchema ''/tmp/sql_benchmark.db'' fresh_db)) ''/tmp/sql_benchmark.db'' =
       Some (Sqlite (tables [] [] [] [] [] Map.empty))"
    "''/tmp/sql_benchmark.db'' \<in> opened (snd (createSchema ''/tmp/sql_benchmark.db'' fresh_db))"
    "fault (snd (createSchema ''/tmp/sql_benchmark.db'' fresh_db)) = (\<lambda>n. None)"
    by (simp_all add: fresh_db_def quiet_def)
qed


section \<open>The claims\<close>

text \<open>
  C1, as the code has it. The entry file ends with \<^verbatim>\<open>bench().catch(console.error)\<close>, so an
  error raised by any step is handled: it is printed on standard error and the process
  ends with status 0, as it does when every step succeeds. In that case the last line of
  standard output is the total line. (The claim that a failing step makes the process exit
  non-zero with an uncaught error fails: see the counterexample.)
\<close>

theorem script_exits_zero:
  assumes "bench w = (r, w')"
  shows "script w =
           (0, case r of Inl e \<Rightarrow> w'\<lparr>stderr := stderr w' @ [e]\<rparr> | Inr u \<Rightarrow> w') \<and>
         (case r of
            Inl e \<Rightarrow> True
          | Inr u \<Rightarrow>
              stdout w' \<noteq> [] \<and>
              last (stdout w') =
                template ''Total SQL benchmark time: ''
                  (now w (ticks w + 19) - now w (ticks w + 6)) '' nanoseconds'')"
proof (cases r)
  case (Inl e)
  with assms show ?thesis
    by (simp add: script_def io_catch_def console_error_def exit_status_def)
next
  case (Inr u)
  with assms have b: "bench w = (Inr (), w')" by simp
  from bench_output [OF b] b Inr show ?thesis
    by (simp add: script_def io_catch_def exit_status_def)
qed

theorem script_exits_zero_witness:
  "bench read_fails = (Inl (Fault ''EIO''), snd (bench read_fails)) \<and>
   script read_fails =
     (0, (snd (bench read_fails))\<lparr>stderr := [Fault ''EIO'']\<rparr>) \<and>
   bench quiet = (Inr (), snd (bench quiet)) \<and>
   script quiet = (0, snd (bench quiet)) \<and>
   last (stdout (snd (bench quiet))) = ''Total SQL benchmark time: 325 nanoseconds''"
proof -
  from bench_frame(4) [OF bench_read_fails(1)]
  have "stderr (snd (bench read_fails)) = []" by (simp add: read_fails_def quiet_def)
  with script_exits_zero [OF bench_read_fails(1)] script_exits_zero [OF bench_quiet]
    bench_read_fails(1) bench_quiet
  show ?thesis by (simp add: quiet_def show_simps)
qed

theorem failing_step_exit_status_counterexample:
  "fst (bench read_fails) = Inl (Fault ''EIO'') \<and>
   fst (script read_fails) = 0 \<and>
   stderr (snd (script read_fails)) = [Fault ''EIO'']"
proof -
  obtain w' where b: "bench read_fails = (Inl (Fault ''EIO''), w')"
    using bench_read_fails(1) by blast
  from bench_frame(4) [OF b] have "stderr w' = []" by (simp add: read_fails_def quiet_def)
  with b show ?thesis
    by (simp add: script_def io_catch_def console_error_def exit_status_def)
qed




text \<open>
  C3. For every operation of the sequence: if it fails, \<^verbatim>\<open>bench\<close> does not catch the error
  but raises it to its caller, the remaining operations are skipped, and no line is
  printed for the failing operation or any operation after it. The operations that can
  fail are the sixteen library calls. If the call number \<open>k + 1\<close> is the first to fail,
  raising \<open>e\<close>, then \<^verbatim>\<open>bench\<close> raises \<open>e\<close>; exactly the first \<open>k + 1\<close> calls were made; and
  the lines printed are those of the timed operations whose calls all come before it.
  (From the fifth call on, the database file must be one the engine accepts: otherwise
  the fifth call is the one that fails.)
\<close>

theorem failure_propagates_and_stops_the_run:
  assumes "k < 16"
    and "\<forall>j<k. fault w (length (trace w) + j) = None"
    and "fault w (length (trace w) + k) = Some e"
    and "k \<le> 4 \<or> (\<forall>s. fs w (dbPath w) = Some (Plain s) \<longrightarrow> s = [])"
  shows "\<exists>w'. bench w = (Inl e, w') \<and>
           trace w' = trace w @ take (Suc k) (calls w) \<and>
           stdout w' =
             stdout w @
             map (line (now w) (ticks w)) (filter (\<lambda>(l, s, e, c). c < Suc k) timed)"
  using assms by (rule bench_fails_at)

theorem failure_propagates_and_stops_the_run_witness:
  "fault read_fails 0 = None \<and> fault read_fails 1 = Some (Fault ''EIO'') \<and>
   bench read_fails = (Inl (Fault ''EIO''), snd (bench read_fails)) \<and>
   trace (snd (bench read_fails)) =
     [WriteFile ''/tmp/benchmark_test.txt'', ReadFile ''/tmp/benchmark_test.txt''] \<and>
   stdout (snd (bench read_fails)) =
     [''Square root execution time: 1 nanoseconds'', ''Write execution time: 5 nanoseconds'']"
proof -
  have "\<exists>w'. bench read_fails = (Inl (Fault ''EIO''), w') \<and>
          trace w' = trace read_fails @ take (Suc 1) (calls read_fails) \<and>
          stdout w' =
            stdout read_fails @
            map (line (now read_fails) (ticks read_fails))
              (filter (\<lambda>(l, s, e, c). c < Suc 1) timed)"
    by (rule failure_propagates_and_stops_the_run) (simp_all add: read_fails_def quiet_def)
  then obtain w' where b: "bench read_fails = (Inl (Fault ''EIO''), w')"
    and t: "trace w' = trace read_fails @ take (Suc 1) (calls read_fails)"
    and s: "stdout w' =
            stdout read_fails @
            map (line (now read_fails) (ticks read_fails))
              (filter (\<lambda>(l, s, e, c). c < Suc 1) timed)" by blast
  from b have w': "w' = snd (bench read_fails)" by simp
  from b t s show ?thesis unfolding w'
    by (simp add: read_fails_def quiet_def calls_def testFile_def path_join_def timed_def
        line_def show_simps)
qed

text \<open>
  C4. A run in which every operation succeeds prints exactly one line per timed operation
  and then exactly one total line, in the order of the source, each of the form
  \<open>label time: integer nanoseconds\<close>: nine lines for the nine timed operations (square
  root, write, read, schema, insertion and the four queries) and the total, ten in all,
  after whatever standard output held before.
\<close>

theorem one_line_per_timed_operation:
  assumes "bench w = (Inr (), w')"
  shows "stdout w' = stdout w @
     [template ''Square root execution time: '' (now w (ticks w + 1) - now w (ticks w)) '' nanoseconds'',
      template ''Write execution time: '' (now w (ticks w + 3) - now w (ticks w + 2)) '' nanoseconds'',
      template ''Read execution time: '' (now w (ticks w + 5) - now w (ticks w + 4)) '' nanoseconds'',
      template ''Schema creation time: '' (now w (ticks w + 8) - now w (ticks w + 7)) '' nanoseconds'',
      template ''Data insertion time: '' (now w (ticks w + 10) - now w (ticks w + 9)) '' nanoseconds'',
      template ''Complex JOIN query time: '' (now w (ticks w + 12) - now w (ticks w + 11)) '' nanoseconds'',
      template ''Recursive CTE query time: '' (now w (ticks w + 14) - now w (ticks w + 13)) '' nanoseconds'',
      template ''Complex aggregation time: '' (now w (ticks w + 16) - now w (ticks w + 15)) '' nanoseconds'',
      template ''Full-text search time: '' (now w (ticks w + 18) - now w (ticks w + 17)) '' nanoseconds'',
      template ''Total SQL benchmark time: '' (now w (ticks w + 19) - now w (ticks w + 6)) '' nanoseconds'']"
  using assms by (rule bench_output)

theorem one_line_per_timed_operation_witness:
  "bench quiet = (Inr (), snd (bench quiet)) \<and>
   stdout (snd (bench quiet)) =
     [''Square root execution time: 1 nanoseconds'',
      ''Write execution time: 5 nanoseconds'',
      ''Read execution time: 9 nanoseconds'',
      ''Schema creation time: 15 nanoseconds'',
      ''Data insertion time: 19 nanoseconds'',
      ''Complex JOIN query time: 23 nanoseconds'',
      ''Recursive CTE query time: 27 nanoseconds'',
      ''Complex aggregation time: 31 nanoseconds'',
      ''Full-text search time: 35 nanoseconds'',
      ''Total SQL benchmark time: 325 nanoseconds'']"
  using one_line_per_timed_operation [OF bench_quiet] bench_quiet
  by (simp add: quiet_def show_simps)

text \<open>
  C5. After the fixture step completes on a freshly created schema, the row counts are
  exactly 3 in \<^verbatim>\<open>customers\<close>, 6 in \<^verbatim>\<open>categories\<close>, 4 in \<^verbatim>\<open>products\<close>, 4 in \<^verbatim>\<open>orders\<close> and
  5 in \<^verbatim>\<open>order_items\<close>.
\<close>

theorem fixture_row_counts:
  assumes "createSchema db w0 = (Inr (), w)" and "insertTestData db w = (Inr (), w')"
  shows "\<exists>d. fs w' db = Some (Sqlite d) \<and>
             row_count ''customers'' d = Inr 3 \<and>
             row_count ''categories'' d = Inr 6 \<and>
             row_count ''products'' d = Inr 4 \<and>
             row_count ''orders'' d = Inr 4 \<and>
             row_count ''order_items'' d = Inr 5"
proof (rule createSchema_returns [OF assms(1)])
  fix d
  assume "w = w0\<lparr>trace := trace w0 @ [Exec db, Exec db],
                fs := (fs w0)(db \<mapsto> Sqlite (tables [] [] [] [] [] d))\<rparr>"
  then have "fs w db = Some (Sqlite (tables [] [] [] [] [] d))" by simp
  from insertTestData_post [OF this] assms(2)
  have "fs w' db =
          Some (Sqlite (tables (customers_rows (current_timestamp w)) categories_rows
            products_rows (orders_rows (current_timestamp w)) order_items_rows d))" by simp
  then show ?thesis
    by (simp add: row_count_tables customers_rows_def categories_rows_def products_rows_def
        orders_rows_def order_items_rows_def)
qed

theorem fixture_row_counts_witness:
  "createSchema ''/tmp/sql_benchmark.db'' fresh_db =
     (Inr (), snd (createSchema ''/tmp/sql_benchmark.db'' fresh_db)) \<and>
   insertTestData ''/tmp/sql_benchmark.db'' (snd (createSchema ''/tmp/sql_benchmark.db'' fresh_db)) =
     (Inr (),
      snd (insertTestData ''/tmp/sql_benchmark.db''
        (snd (createSchema ''/tmp/sql_benchmark.db'' fresh_db)))) \<and>
   (\<exists>d. fs (snd (insertTestData ''/tmp/sql_benchmark.db''
              (snd (createSchema ''/tmp/sql_benchmark.db'' fresh_db)))) ''/tmp/sql_benchmark.db'' =
           Some (Sqlite d) \<and>
        row_count ''customers'' d = Inr 3 \<and>
        row_count ''categories'' d = Inr 6 \<and>
        row_count ''products'' d = Inr 4 \<and>
        row_count ''orders'' d = Inr 4 \<and>
        row_count ''order_items'' d = Inr 5)"
proof -
  have "fst (insertTestData ''/tmp/sql_benchmark.db''
          (snd (createSchema ''/tmp/sql_benchmark.db'' fresh_db))) = Inr ()"
    by (rule insertTestData_succeeds [OF createSchema_fresh_db(3) createSchema_fresh_db(2)])
      (simp_all add: createSchema_fresh_db(4))
  then have i: "insertTestData ''/tmp/sql_benchmark.db''
       (snd (createSchema ''/tmp/sql_benchmark.db'' fresh_db)) =
     (Inr (),
      snd (insertTestData ''/tmp/sql_benchmark.db''
        (snd (createSchema ''/tmp/sql_benchmark.db'' fresh_db))))"
    by (simp add: prod_eq_iff)
  from fixture_row_counts [OF createSchema_fresh_db(1) i] createSchema_fresh_db(1) i
  show ?thesis by blast
qed



text \<open>
  C7. Given a fresh, empty database, after the schema step completes the five tables
  \<^verbatim>\<open>customers\<close>, \<^verbatim>\<open>categories\<close>, \<^verbatim>\<open>products\<close>, \<^verbatim>\<open>orders\<close> and \<^verbatim>\<open>order_items\<close> exist (and
  no other), and counting the rows of any of them gives zero.
\<close>

theorem schema_on_fresh_database:
  assumes "fs w db = Some (Sqlite Map.empty)" and "createSchema db w = (Inr (), w')"
  shows "\<exists>d. fs w' db = Some (Sqlite d) \<and>
             dom d = {''customers'', ''categories'', ''products'', ''orders'', ''order_items''} \<and>
             (\<forall>t \<in> {''customers'', ''categories'', ''products'', ''orders'', ''order_items''}.
                row_count t d = Inr 0)"
proof (rule createSchema_returns [OF assms(2)])
  fix d
  assume "load db (fs w db) = Inr d"
    and w': "w' = w\<lparr>trace := trace w @ [Exec db, Exec db],
                fs := (fs w)(db \<mapsto> Sqlite (tables [] [] [] [] [] d))\<rparr>"
  with assms(1) have "d = Map.empty" by (simp add: load_Sqlite)
  with w' have "fs w' db = Some (Sqlite (tables [] [] [] [] [] Map.empty))" by simp
  then show ?thesis by (simp add: dom_tables row_count_tables)
qed

theorem schema_on_fresh_database_witness:
  "fs fresh_db ''/tmp/sql_benchmark.db'' = Some (Sqlite Map.empty) \<and>
   createSchema ''/tmp/sql_benchmark.db'' fresh_db =
     (Inr (), snd (createSchema ''/tmp/sql_benchmark.db'' fresh_db)) \<and>
   (\<exists>d. fs (snd (createSchema ''/tmp/sql_benchmark.db'' fresh_db)) ''/tmp/sql_benchmark.db'' =
           Some (Sqlite d) \<and>
        dom d = {''customers'', ''categories'', ''products'', ''orders'', ''order_items''} \<and>
        row_count ''customers'' d = Inr 0 \<and> row_count ''categories'' d = Inr 0 \<and>
        row_count ''products'' d = Inr 0 \<and> row_count ''orders'' d = Inr 0 \<and>
        row_count ''order_items'' d = Inr 0)"
proof -
  have f: "fs fresh_db ''/tmp/sql_benchmark.db'' = Some (Sqlite Map.empty)"
    by (simp add: fresh_db_def quiet_def)
  have "\<exists>d. fs (snd (createSchema ''/tmp/sql_benchmark.db'' fresh_db)) ''/tmp/sql_benchmark.db'' =
            Some (Sqlite d) \<and>
          dom d = {''customers'', ''categories'', ''products'', ''orders'', ''order_items''} \<and>
          (\<forall>t \<in> {''customers'', ''categories'', ''products'', ''orders'', ''order_items''}.
             row_count t d = Inr 0)"
    using f createSchema_fresh_db(1) by (rule schema_on_fresh_database)
  then obtain d where d:
    "fs (snd (createSchema ''/tmp/sql_benchmark.db'' fresh_db)) ''/tmp/sql_benchmark.db'' =
       Some (Sqlite d)"
    "dom d = {''customers'', ''categories'', ''products'', ''orders'', ''order_items''}"
    and c: "\<forall>t \<in> {''customers'', ''categories'', ''products'', ''orders'', ''order_items''}.
       row_count t d = Inr 0"
    by (elim exE conjE)
  from c have
    "row_count ''customers'' d = Inr 0" "row_count ''categories'' d = Inr 0"
    "row_count ''products'' d = Inr 0" "row_count ''orders'' d = Inr 0"
    "row_count ''order_items'' d = Inr 0"
    by (simp_all only: ball_simps)
  with d f createSchema_fresh_db(1) show ?thesis by (intro conjI exI [of _ d])
qed

text \<open>
  C8. Under the hypothesis that the clock is monotonic, every line that is printed carries
  a duration that is not negative, and the end reading it was computed from is not earlier
  than the start reading. The lines printed by a run, failed or not, are those of the
  first \<open>n\<close> timed operations for some \<open>n\<close>; for each of them the end reading is at least
  the start reading and their difference, which is the number in the line, is at least 0.
\<close>

theorem durations_are_not_negative:
  assumes "mono (now w)" and "bench w = (r, w')"
  shows "\<exists>n\<le>10.
           stdout w' = stdout w @ map (line (now w) (ticks w)) (take n timed) \<and>
           (\<forall>(label, s, e, c) \<in> set (take n timed).
              line (now w) (ticks w) (label, s, e, c) =
                template (label @ '' time: '')
                  (now w (ticks w + e) - now w (ticks w + s)) '' nanoseconds'' \<and>
              now w (ticks w + s) \<le> now w (ticks w + e) \<and>
              0 \<le> now w (ticks w + e) - now w (ticks w + s))"
proof -
  from bench_frame(7) [OF assms(2)] obtain n where n: "n \<le> 10"
    and out: "stdout w' = stdout w @ map (line (now w) (ticks w)) (take n timed)" by blast
  have order: "\<forall>(label, s, e, c) \<in> set timed. s \<le> e"
    by (simp add: timed_def)
  have "\<forall>(label, s, e, c) \<in> set (take n timed).
          line (now w) (ticks w) (label, s, e, c) =
            template (label @ '' time: '')
              (now w (ticks w + e) - now w (ticks w + s)) '' nanoseconds'' \<and>
          now w (ticks w + s) \<le> now w (ticks w + e) \<and>
          0 \<le> now w (ticks w + e) - now w (ticks w + s)"
  proof (clarify, intro conjI)
    fix label s e c
    assume "(label, s, e, c) \<in> set (take n timed)"
    then have "(label, s, e, c) \<in> set timed" by (rule in_set_takeD)
    with order have "s \<le> e" by auto
    with assms(1) show le: "now w (ticks w + s) \<le> now w (ticks w + e)"
      by (simp add: monoD)
    then show "0 \<le> now w (ticks w + e) - now w (ticks w + s)" by simp
    show "line (now w) (ticks w) (label, s, e, c) =
            template (label @ '' time: '')
              (now w (ticks w + e) - now w (ticks w + s)) '' nanoseconds''"
      by (simp add: line_def)
  qed
  with n out show ?thesis by blast
qed

theorem durations_are_not_negative_witness:
  "mono (now quiet) \<and> bench quiet = (Inr (), snd (bench quiet)) \<and>
   (\<exists>n\<le>10.
      stdout (snd (bench quiet)) = stdout quiet @ map (line (now quiet) (ticks quiet)) (take n timed) \<and>
      (\<forall>(label, s, e, c) \<in> set (take n timed).
         line (now quiet) (ticks quiet) (label, s, e, c) =
           template (label @ '' time: '')
             (now quiet (ticks quiet + e) - now quiet (ticks quiet + s)) '' nanoseconds'' \<and>
         now quiet (ticks quiet + s) \<le> now quiet (ticks quiet + e) \<and>
         0 \<le> now quiet (ticks quiet + e) - now quiet (ticks quiet + s)))"
  using durations_are_not_negative [OF mono_quiet bench_quiet] mono_quiet bench_quiet
  by blast



text \<open>
  C10. For every starting database in which any of the five tables already exist, with
  whatever columns and rows (a file left by an earlier run), the schema step succeeds and
  leaves what it leaves on a fresh database: the five tables, empty. It drops each table,
  if it exists, before creating it. Hence running it a second time leaves the database as
  the first run left it. (Provided the environment fails none of the calls.)
\<close>

theorem schema_setup_is_idempotent:
  assumes "db \<in> opened w" and "fs w db = Some (Sqlite d)"
    and "dom d \<subseteq> {''customers'', ''categories'', ''products'', ''orders'', ''order_items''}"
    and "\<forall>k<4. fault w (length (trace w) + k) = None"
  shows "\<exists>w1 w2 d1.
           createSchema db w = (Inr (), w1) \<and> createSchema db w1 = (Inr (), w2) \<and>
           fs w1 db = Some (Sqlite d1) \<and>
           fs (snd (createSchema db (w\<lparr>fs := (fs w)(db \<mapsto> Sqlite Map.empty)\<rparr>))) db =
             Some (Sqlite d1) \<and>
           fs w2 db = Some (Sqlite d1) \<and>
           dom d1 = {''customers'', ''categories'', ''products'', ''orders'', ''order_items''} \<and>
           (\<forall>t \<in> {''customers'', ''categories'', ''products'', ''orders'', ''order_items''}.
              row_count t d1 = Inr 0)"
proof -
  from assms(4) have f:
    "fault w (length (trace w)) = None"
    "fault w (Suc (length (trace w))) = None"
    "fault w (Suc (Suc (length (trace w)))) = None"
    "fault w (Suc (Suc (Suc (length (trace w))))) = None"
    by (simp_all add: All_less_Suc eval_nat_numeral)
  define d1 where "d1 = tables [] [] [] [] [] d"
  define w1 where
    "w1 = w\<lparr>trace := trace w @ [Exec db, Exec db], fs := (fs w)(db \<mapsto> Sqlite d1)\<rparr>"
  define w2 where
    "w2 = w1\<lparr>trace := trace w1 @ [Exec db, Exec db], fs := (fs w1)(db \<mapsto> Sqlite d1)\<rparr>"
  define w0 where "w0 = w\<lparr>fs := (fs w)(db \<mapsto> Sqlite Map.empty)\<rparr>"
  have fresh: "d1 = tables [] [] [] [] [] Map.empty"
    unfolding d1_def using assms(3) by (rule tables_fresh)
  have again: "tables [] [] [] [] [] d1 = d1"
    by (simp add: d1_def tables_again)
  have l: "load db (fs w db) = Inr d" by (simp add: assms(2) load_Sqlite)
  have 1: "createSchema db w = (Inr (), w1)"
    unfolding w1_def d1_def using assms(1) l f(1,2) by (rule createSchema_succeeds)
  have "createSchema db w1 =
          (Inr (), w1\<lparr>trace := trace w1 @ [Exec db, Exec db],
                      fs := (fs w1)(db \<mapsto> Sqlite (tables [] [] [] [] [] d1))\<rparr>)"
    by (rule createSchema_succeeds) (simp_all add: w1_def assms(1) load_Sqlite f)
  then have 2: "createSchema db w1 = (Inr (), w2)" by (simp add: again w2_def)
  have "createSchema db w0 =
          (Inr (), w0\<lparr>trace := trace w0 @ [Exec db, Exec db],
                      fs := (fs w0)(db \<mapsto> Sqlite (tables [] [] [] [] [] Map.empty))\<rparr>)"
    by (rule createSchema_succeeds) (simp_all add: w0_def assms(1) load_Sqlite f)
  then have 0: "fs (snd (createSchema db w0)) db = Some (Sqlite d1)"
    by (simp add: fresh)
  have "fs w1 db = Some (Sqlite d1)" "fs w2 db = Some (Sqlite d1)"
    by (simp_all add: w1_def w2_def)
  moreover have
    "dom d1 = {''customers'', ''categories'', ''products'', ''orders'', ''order_items''}"
    "\<forall>t \<in> {''customers'', ''categories'', ''products'', ''orders'', ''order_items''}.
       row_count t d1 = Inr 0"
    by (simp_all add: fresh dom_tables row_count_tables)
  ultimately show ?thesis using 0 1 2 unfolding w0_def by (intro exI conjI)
qed

theorem schema_setup_is_idempotent_witness:
  "''/tmp/sql_benchmark.db'' \<in> opened leftover_db \<and>
   (case fs leftover_db ''/tmp/sql_benchmark.db'' of
      Some (Sqlite d) \<Rightarrow> dom d = {''orders''} \<and> row_count ''orders'' d = Inr 1
    | _ \<Rightarrow> False) \<and>
   (\<exists>w1 w2 d1.
      createSchema ''/tmp/sql_benchmark.db'' leftover_db = (Inr (), w1) \<and>
      createSchema ''/tmp/sql_benchmark.db'' w1 = (Inr (), w2) \<and>
      fs w1 ''/tmp/sql_benchmark.db'' = Some (Sqlite d1) \<and>
      fs (snd (createSchema ''/tmp/sql_benchmark.db''
            (leftover_db\<lparr>fs := (fs leftover_db)(''/tmp/sql_benchmark.db'' \<mapsto> Sqlite Map.empty)\<rparr>)))
         ''/tmp/sql_benchmark.db'' = Some (Sqlite d1) \<and>
      fs w2 ''/tmp/sql_benchmark.db'' = Some (Sqlite d1) \<and>
      dom d1 = {''customers'', ''categories'', ''products'', ''orders'', ''order_items''} \<and>
      (\<forall>t \<in> {''customers'', ''categories'', ''products'', ''orders'', ''order_items''}.
         row_count t d1 = Inr 0))"
proof -
  have o: "''/tmp/sql_benchmark.db'' \<in> opened leftover_db"
    by (simp add: leftover_db_def)
  have d: "fs leftover_db ''/tmp/sql_benchmark.db'' =
      Some (Sqlite [''orders'' \<mapsto>
        \<lparr>columns = [Column ''note'' TEXT []], fkeys = [],
         rows = [[(''note'', Text ''stale'')]]\<rparr>])"
    by (simp add: leftover_db_def stale_def)
  have s: "dom [''orders'' \<mapsto>
        \<lparr>columns = [Column ''note'' TEXT []], fkeys = [],
         rows = [[(''note'', Text ''stale'')]]\<rparr>]
      \<subseteq> {''customers'', ''categories'', ''products'', ''orders'', ''order_items''}"
    by simp
  have n: "\<forall>k<4. fault leftover_db (length (trace leftover_db) + k) = None"
    by (simp add: leftover_db_def stale_def quiet_def)
  have c: "case fs leftover_db ''/tmp/sql_benchmark.db'' of
      Some (Sqlite d) \<Rightarrow> dom d = {''orders''} \<and> row_count ''orders'' d = Inr 1
    | _ \<Rightarrow> False"
    by (simp add: d row_count_def)
  from schema_setup_is_idempotent [OF o d s n] o c show ?thesis by (intro conjI)
qed

end
